theory Spec2Isabelle
  imports Main "HOL-Library.AList"
begin

section \<open>Strings\<close>

text \<open>
  A Python \<open>str\<close> is modelled as a \<open>string\<close>, one \<open>char\<close> per code point below 256.
  The characters that \<open>str.strip()\<close> removes are those for which \<open>str.isspace\<close> holds;
  below 256 these are the code points 9 to 13, 28 to 32, 133 and 160.
\<close>

definition py_isspace :: "char \<Rightarrow> bool" where
  "py_isspace c \<longleftrightarrow> (of_char c :: nat) \<in> set [9, 10, 11, 12, 13, 28, 29, 30, 31, 32, 133, 160]"

definition py_strip :: "string \<Rightarrow> string" where
  "py_strip s = rev (dropWhile py_isspace (rev (dropWhile py_isspace s)))"

text \<open>
  \<open>text.replace(old, new)\<close>: every occurrence of \<open>old\<close> is replaced, scanning from the
  left, and the scan goes on behind the occurrence it has just replaced, so that the
  occurrences replaced do not overlap. The source calls it with a non-empty \<open>old\<close> only.
\<close>

function py_replace :: "string \<Rightarrow> string \<Rightarrow> string \<Rightarrow> string" where
  "py_replace old new [] = []"
| "py_replace old new (c # cs) =
     (if old \<noteq> [] \<and> take (length old) (c # cs) = old
      then new @ py_replace old new (drop (length old) (c # cs))
      else c # py_replace old new cs)"
  by pat_completeness auto
termination
  by (relation "measure (\<lambda>(old, new, s). length s)") auto

text \<open>\<open>os.path.join\<close> and \<open>os.path.basename\<close> on POSIX paths.\<close>

definition path_join :: "string \<Rightarrow> string \<Rightarrow> string" where
  "path_join a b =
     (if b \<noteq> [] \<and> hd b = CHR ''/'' then b
      else if a = [] \<or> last a = CHR ''/'' then a @ b
      else a @ ''/'' @ b)"

definition basename :: "string \<Rightarrow> string" where
  "basename p = rev (takeWhile (\<lambda>c. c \<noteq> CHR ''/'') (rev p))"

section \<open>Configuration\<close>

definition BASE_DIR :: string where
  "BASE_DIR = ''data_availability_project''"

definition INPUT_DIR :: string where
  "INPUT_DIR = path_join BASE_DIR ''data_availability_all_1_1a''"

definition OUTPUT_DIR :: string where
  "OUTPUT_DIR = path_join BASE_DIR ''classified_natcomm_2023_by_gemma''"

definition FINAL_OUTPUT :: string where
  "FINAL_OUTPUT = path_join BASE_DIR ''classified_natcomm_2023_by_gemma_all.csv''"

definition MAX_RETRY :: nat where
  "MAX_RETRY = 3"

definition DATA_COLUMN :: string where
  "DATA_COLUMN = ''data''"

definition MAX_WORKERS :: nat where
  "MAX_WORKERS = 6"

text \<open>The seven category names, as the lines 38 to 44 of the source list them in the prompt.\<close>

definition taxonomy :: "string list" where
  "taxonomy =
     [''Fully Public Repository Deposition'',
      ''Public Within Article / Supplement Only'',
      ''Reuse of Public Third-Party Data Only'',
      ''Mixed Public Deposit + Author Request'',
      ''Controlled-Access Repository Data'',
      ''Author Upon Request Only'',
      ''No Data Generated / Not Applicable'']"

definition CATEGORY_PROMPT :: string where
  \<open>CATEGORY_PROMPT =
     ''\<newline>You must classify the Data Availability statement into EXACTLY ONE category.\<newline>'' @
     ''\<newline>Categories ordered from highest to lowest public accessibility:\<newline>'' @
     ''\<newline>1. Fully Public Repository Deposition\<newline>'' @
     ''2. Public Within Article / Supplement Only\<newline>'' @
     ''3. Reuse of Public Third-Party Data Only\<newline>'' @
     ''4. Mixed Public Deposit + Author Request\<newline>'' @
     ''5. Controlled-Access Repository Data\<newline>'' @
     ''6. Author Upon Request Only\<newline>'' @
     ''7. No Data Generated / Not Applicable\<newline>'' @
     ''\<newline>Strict rules:\<newline>'' @
     ''- Choose EXACTLY ONE category.\<newline>'' @
     ''- Follow the accessibility hierarchy.\<newline>'' @
     ''- Output ONLY valid JSON.\<newline>'' @
     ''- Do not use markdown.\<newline>'' @
     ''- Do not wrap in ```json.\<newline>'' @
     ''- Do not add explanations outside JSON.\<newline>'' @
     ''\<newline>Output format:\<newline>'' @
     ''{\<newline>'' @
     ''  "category": "EXACT CATEGORY NAME",\<newline>'' @
     ''  "reason": "short explanation"\<newline>'' @
     ''}\<newline>''\<close>

section \<open>Values and exceptions\<close>

text \<open>
  An exception is carried by the name of its class and by the text \<open>str(e)\<close> gives.
  A value that \<open>json.loads\<close> returns is a \<open>json\<close>: a number is carried by its text,
  a \<open>dict\<close> by the list of its items.
\<close>

datatype exn = Exn (exn_class: string) (exn_str: string)

datatype json =
    JNull
  | JBool bool
  | JNum string
  | JStr string
  | JArr "json list"
  | JObj "(string \<times> json) list"

text \<open>\<open>parsed[key]\<close> for a string key: only a \<open>dict\<close> that has the key answers.\<close>

fun py_getitem :: "json \<Rightarrow> string \<Rightarrow> exn + json" where
  "py_getitem (JObj items) key =
     (case map_of items key of
        None \<Rightarrow> Inl (Exn ''KeyError'' key)
      | Some v \<Rightarrow> Inr v)"
| "py_getitem (JArr xs) key = Inl (Exn ''TypeError'' ''list indices must be integers or slices, not str'')"
| "py_getitem (JStr s) key = Inl (Exn ''TypeError'' ''string indices must be integers'')"
| "py_getitem v key = Inl (Exn ''TypeError'' ''object is not subscriptable'')"

section \<open>The model call and the extraction of its answer\<close>

text \<open>
  \<open>call_llama\<close> runs \<open>ollama run gemma:2b\<close> with the prompt on its standard input. The
  process is outside the program: \<open>run\<close> gives, for the number of the invocation within
  one call of \<open>classify_text\<close> and for the prompt, either the exception that
  \<open>subprocess.run\<close> raises or the standard output of the process. No claim depends on
  how long the process takes, and a process that never ends is not modelled.
\<close>

type_synonym subprocess = "nat \<Rightarrow> string \<Rightarrow> exn + string"

definition call_llama :: "subprocess \<Rightarrow> nat \<Rightarrow> string \<Rightarrow> exn + string" where
  "call_llama run k prompt =
     (case run k prompt of
        Inl e \<Rightarrow> Inl e
      | Inr stdout \<Rightarrow> Inr (py_strip stdout))"

text \<open>
  \<open>re.search(r"\{.*\}", text, re.DOTALL)\<close>: the search takes the leftmost position where
  the pattern matches, and the star, which is greedy and with \<open>DOTALL\<close> passes every
  character, takes the longest match from there. A match starts at an opening brace that
  has a closing brace behind it; if the first opening brace has none, no later one has.
  So the match runs from the first opening brace to the last closing brace of the text.
\<close>

definition re_search_braces :: "string \<Rightarrow> string option" where
  "re_search_braces text =
     (let rest = dropWhile (\<lambda>c. c \<noteq> CHR ''{'') text
      in if rest \<noteq> [] \<and> CHR ''}'' \<in> set (tl rest)
         then Some (rev (dropWhile (\<lambda>c. c \<noteq> CHR ''}'') (rev rest)))
         else None)"

definition extract_json :: "string \<Rightarrow> string option" where
  "extract_json text =
     (let text1 = py_replace ''```json'' [] text;
          text2 = py_replace ''```'' [] text1
      in re_search_braces text2)"

section \<open>classify\_text\<close>

text \<open>
  The f-string of \<open>classify_text\<close>: a line break, the category prompt, the heading, the
  text between two runs of three double quotes, and the closing directive.
\<close>

definition build_prompt :: "string \<Rightarrow> string" where
  \<open>build_prompt text =
     ''\<newline>'' @ CATEGORY_PROMPT @ ''\<newline>\<newline>Data Availability Statement:\<newline>"""'' @ text @
     ''"""\<newline>\<newline>Classify now.\<newline>''\<close>

text \<open>
  The lines 100 to 105: \<open>json.loads\<close> and the two subscripts under \<open>try\<close>, where every
  exception is passed over. \<open>loads\<close> stands for \<open>json.loads\<close>, which is outside the
  program. A string that is \<open>None\<close> or empty does not enter the \<open>try\<close>.
\<close>

type_synonym decoder = "string \<Rightarrow> exn + json"

definition parse_fields :: "decoder \<Rightarrow> string option \<Rightarrow> (json \<times> json) option" where
  "parse_fields loads cleaned_json =
     (case cleaned_json of
        None \<Rightarrow> None
      | Some s \<Rightarrow>
          if s = [] then None
          else (case loads s of
                  Inl e \<Rightarrow> None
                | Inr parsed \<Rightarrow>
                    (case py_getitem parsed ''category'' of
                       Inl e \<Rightarrow> None
                     | Inr category \<Rightarrow>
                         (case py_getitem parsed ''reason'' of
                            Inl e \<Rightarrow> None
                          | Inr reason \<Rightarrow> Some (category, reason)))))"

text \<open>
  The loop \<open>for _ in range(MAX_RETRY)\<close>: \<open>n\<close> rounds are left, \<open>k\<close> invocations have been
  made, \<open>output\<close> is the variable of that name, unbound before the first round. The
  result comes with the prompts of the invocations made, in their order. An exception
  of \<open>subprocess.run\<close> is not caught in \<open>classify_text\<close>. The pause of half a second
  after a failed round changes no value.
\<close>

fun classify_loop ::
  "subprocess \<Rightarrow> decoder \<Rightarrow> string \<Rightarrow> nat \<Rightarrow> nat \<Rightarrow> string option
     \<Rightarrow> (exn + json \<times> json) \<times> string list" where
  "classify_loop run loads prompt 0 k output =
     (case output of
        None \<Rightarrow> (Inl (Exn ''UnboundLocalError'' ''output''), [])
      | Some out \<Rightarrow> (Inr (JStr ''ERROR'', JStr out), []))"
| "classify_loop run loads prompt (Suc n) k output =
     (case call_llama run k prompt of
        Inl e \<Rightarrow> (Inl e, [prompt])
      | Inr out \<Rightarrow>
          (case parse_fields loads (extract_json out) of
             Some (category, reason) \<Rightarrow> (Inr (category, reason), [prompt])
           | None \<Rightarrow>
               (let (res, calls) = classify_loop run loads prompt n (Suc k) (Some out)
                in (res, prompt # calls))))"

definition classify_text ::
  "subprocess \<Rightarrow> decoder \<Rightarrow> string \<Rightarrow> (exn + json \<times> json) \<times> string list" where
  "classify_text run loads text = classify_loop run loads (build_prompt text) MAX_RETRY 0 None"

section \<open>Tables and files\<close>

text \<open>
  A \<open>DataFrame\<close> is its column names and its rows, each row with one cell per column.
  A cell of a table that \<open>pd.read_csv\<close> has read from an input unit is the missing
  value \<open>NaN\<close>, a text, or another scalar (a number, a truth value), which is carried by
  the text that \<open>str\<close> gives for it. A cell of an output table is a cell kept from the
  input or a value assigned from the classification.
\<close>

record 'c table =
  columns :: "string list"
  rows :: "'c list list"

datatype cell = NaN | Str string | Num string

datatype ocell = Kept cell | Assigned json

fun py_str :: "cell \<Rightarrow> string" where
  "py_str NaN = ''nan''"
| "py_str (Str s) = s"
| "py_str (Num s) = s"

text \<open>
  The CSV format is outside the program: a file is represented by what \<open>pd.read_csv\<close>
  makes of it, a table or the exception it raises (an empty file, a directory, bytes
  that do not decode). A table that \<open>to_csv\<close> has written in full is read back as
  written; column names that are equal after trimming would be renamed apart on
  reading, which changes no row.
\<close>

datatype 'c csv_file = Table "'c table" | Unreadable exn

text \<open>
  The input directory (absent, or the list of its entries by name), the output
  directory, which the program creates when it is loaded, and the final file.
\<close>

record store =
  input_dir :: "(string \<times> cell csv_file) list option"
  output_dir :: "(string \<times> ocell csv_file) list"
  final_output :: "ocell csv_file option"

text \<open>
  What lies outside the program and is not fixed by its text:
  \<^item> \<open>subprocess_run\<close>: the model process, for each input unit (its path), as \<open>call_llama\<close>
    takes it;
  \<^item> \<open>json_loads\<close>: \<open>json.loads\<close>;
  \<^item> \<open>series_str\<close>: \<open>str\<close> of the \<open>Series\<close> that a row gives for a label that several
    columns have;
  \<^item> \<open>column_values\<close>: the cells that pandas makes of a list or a dict assigned as a
    column of a table with the given number of rows, or the exception it raises;
  \<^item> \<open>write_outcome\<close>: how a write to a path ends.
\<close>

datatype write_result =
    Completes
  | Refused exn
  | Breaks nat exn

record env =
  subprocess_run :: "string \<Rightarrow> subprocess"
  json_loads :: decoder
  series_str :: "cell list \<Rightarrow> string"
  column_values :: "json \<Rightarrow> nat \<Rightarrow> exn + ocell list"
  write_outcome :: "string \<Rightarrow> write_result"

text \<open>
  \<open>glob(os.path.join(dir, "*.csv"))\<close>: the entries of the directory whose name ends in
  \<open>.csv\<close> and does not begin with a dot, each joined to the directory.
\<close>

definition matches_csv :: "string \<Rightarrow> bool" where
  "matches_csv name \<longleftrightarrow> take 4 (rev name) = ''vsc.'' \<and> hd name \<noteq> CHR ''.''"

definition glob_csv :: "string \<Rightarrow> (string \<times> 'a) list \<Rightarrow> string list" where
  "glob_csv dir entries = map (path_join dir) (filter matches_csv (map fst entries))"

text \<open>\<open>pd.read_csv\<close> of a path in the input directory, and of one in the output directory.\<close>

definition read_csv :: "store \<Rightarrow> string \<Rightarrow> exn + cell table" where
  "read_csv st path =
     (case input_dir st of
        None \<Rightarrow> Inl (Exn ''FileNotFoundError'' path)
      | Some entries \<Rightarrow>
          if path \<noteq> path_join INPUT_DIR (basename path) then Inl (Exn ''FileNotFoundError'' path)
          else (case map_of entries (basename path) of
                  None \<Rightarrow> Inl (Exn ''FileNotFoundError'' path)
                | Some (Unreadable e) \<Rightarrow> Inl e
                | Some (Table df) \<Rightarrow> Inr df))"

definition read_csv_output :: "store \<Rightarrow> string \<Rightarrow> exn + ocell table" where
  "read_csv_output st path =
     (if path \<noteq> path_join OUTPUT_DIR (basename path) then Inl (Exn ''FileNotFoundError'' path)
      else (case map_of (output_dir st) (basename path) of
              None \<Rightarrow> Inl (Exn ''FileNotFoundError'' path)
            | Some (Unreadable e) \<Rightarrow> Inl e
            | Some (Table df) \<Rightarrow> Inr df))"

text \<open>
  \<open>df.to_csv(path, index=False)\<close> opens the path for writing, which empties a file that
  is there, and writes the header line and the rows to it one after the other. The
  write completes, or the path cannot be opened and nothing changes, or it breaks off
  with an exception after some lines have reached the file: no line leaves an empty
  file, which \<open>pd.read_csv\<close> refuses, and \<open>k + 1\<close> lines leave the header and \<open>k\<close> rows.
\<close>

definition put_file :: "store \<Rightarrow> string \<Rightarrow> ocell csv_file \<Rightarrow> store" where
  "put_file st path f =
     (if path = FINAL_OUTPUT then st\<lparr>final_output := Some f\<rparr>
      else if path = path_join OUTPUT_DIR (basename path)
      then st\<lparr>output_dir := AList.update (basename path) f (output_dir st)\<rparr>
      else st)"

definition broken_file :: "nat \<Rightarrow> ocell table \<Rightarrow> ocell csv_file" where
  "broken_file k df =
     (if k = 0 then Unreadable (Exn ''EmptyDataError'' ''No columns to parse from file'')
      else Table (df\<lparr>rows := take (k - 1) (rows df)\<rparr>))"

definition to_csv :: "env \<Rightarrow> store \<Rightarrow> string \<Rightarrow> ocell table \<Rightarrow> exn option \<times> store" where
  "to_csv env st path df =
     (case write_outcome env path of
        Completes \<Rightarrow> (None, put_file st path (Table df))
      | Refused e \<Rightarrow> (Some e, st)
      | Breaks k e \<Rightarrow> (Some e, put_file st path (broken_file k df)))"

section \<open>process\_file\<close>

text \<open>
  \<open>str(df.iloc[0][DATA_COLUMN])\<close>: the first row, which a table without rows does not
  have, and in it the cell of the column; where several columns have the name, the
  subscript gives the \<open>Series\<close> of their cells.
\<close>

definition first_text :: "env \<Rightarrow> cell table \<Rightarrow> exn + string" where
  "first_text env df =
     (case rows df of
        [] \<Rightarrow> Inl (Exn ''IndexError'' ''single positional indexer is out-of-bounds'')
      | r # rs \<Rightarrow>
          (case [c. (n, c) \<leftarrow> zip (columns df) r, n = DATA_COLUMN] of
             [c] \<Rightarrow> Inr (py_str c)
           | cs \<Rightarrow> Inr (series_str env cs)))"

text \<open>
  \<open>df[name] = value\<close>: a scalar fills the column; for a list or a dict pandas decides.
  The column is appended when no column has the name, and every column that has the
  name is overwritten otherwise.
\<close>

fun is_scalar :: "json \<Rightarrow> bool" where
  "is_scalar (JArr xs) = False"
| "is_scalar (JObj items) = False"
| "is_scalar v = True"

definition put_column :: "ocell table \<Rightarrow> string \<Rightarrow> ocell list \<Rightarrow> ocell table" where
  "put_column df name cells =
     (if name \<in> set (columns df)
      then df\<lparr>rows := map (\<lambda>(r, v). map (\<lambda>(n, x). if n = name then v else x) (zip (columns df) r))
                          (zip (rows df) cells)\<rparr>
      else df\<lparr>columns := columns df @ [name],
              rows := map (\<lambda>(r, v). r @ [v]) (zip (rows df) cells)\<rparr>)"

definition set_column :: "env \<Rightarrow> ocell table \<Rightarrow> string \<Rightarrow> json \<Rightarrow> exn + ocell table" where
  "set_column env df name v =
     (if is_scalar v then Inr (put_column df name (replicate (length (rows df)) (Assigned v)))
      else (case column_values env v (length (rows df)) of
              Inl e \<Rightarrow> Inl e
            | Inr cells \<Rightarrow> Inr (put_column df name cells)))"

definition kept :: "cell table \<Rightarrow> ocell table" where
  "kept df = \<lparr>columns = columns df, rows = map (map Kept) (rows df)\<rparr>"

definition error_status :: "string \<Rightarrow> exn \<Rightarrow> string" where
  "error_status filename e = ''Error in '' @ filename @ '': '' @ exn_str e"

text \<open>
  \<open>process_file\<close> returns its status line, the store as it leaves it, and the prompts
  it has sent to the model, in their order.
\<close>

definition process_file :: "env \<Rightarrow> store \<Rightarrow> string \<Rightarrow> string \<times> store \<times> string list" where
  "process_file env st input_path =
     (let filename = basename input_path;
          output_path = path_join OUTPUT_DIR filename
      in case read_csv st input_path of
           Inl e \<Rightarrow> (error_status filename e, st, [])
         | Inr df0 \<Rightarrow>
             (let df = df0\<lparr>columns := map py_strip (columns df0)\<rparr>
              in if DATA_COLUMN \<notin> set (columns df) then (''Column missing: '' @ filename, st, [])
                 else (case first_text env df of
                         Inl e \<Rightarrow> (error_status filename e, st, [])
                       | Inr text \<Rightarrow>
                           (case classify_text (subprocess_run env input_path) (json_loads env) text of
                              (Inl e, calls) \<Rightarrow> (error_status filename e, st, calls)
                            | (Inr (category, reason), calls) \<Rightarrow>
                                (case set_column env (kept df) ''Category'' category of
                                   Inl e \<Rightarrow> (error_status filename e, st, calls)
                                 | Inr df1 \<Rightarrow>
                                     (case set_column env df1 ''Reason'' reason of
                                        Inl e \<Rightarrow> (error_status filename e, st, calls)
                                      | Inr df2 \<Rightarrow>
                                          (case to_csv env st output_path df2 of
                                             (Some e, st') \<Rightarrow> (error_status filename e, st', calls)
                                           | (None, st') \<Rightarrow> (''Done: '' @ filename, st', calls))))))))"

section \<open>merge\_outputs and main\<close>

text \<open>The lines the program prints; the elapsed time is not modelled.\<close>

datatype line =
    InputDirectoryNotFound
  | NoCsvFilesFound
  | TotalFiles nat
  | AlreadyProcessed nat
  | Remaining nat
  | UsingWorkers nat
  | Status string
  | NoClassifiedFilesFound
  | FinalMergedFileSavedTo string
  | TotalTime

text \<open>
  \<open>pd.concat(df_list, ignore_index=True)\<close>: the columns are those of the tables in the
  order of their first appearance, and every row of every table is kept, its cells
  under their own column names and \<open>NaN\<close> elsewhere.
\<close>

definition first_seen :: "string list \<Rightarrow> string list" where
  "first_seen xs = rev (remdups (rev xs))"

definition realign :: "string list \<Rightarrow> string list \<Rightarrow> ocell list \<Rightarrow> ocell list" where
  "realign cols own r =
     map (\<lambda>n. case map_of (zip own r) n of None \<Rightarrow> Kept NaN | Some x \<Rightarrow> x) cols"

definition pd_concat :: "ocell table list \<Rightarrow> ocell table" where
  "pd_concat dfs =
     (let cols = first_seen (concat (map columns dfs))
      in \<lparr>columns = cols,
          rows = concat (map (\<lambda>df. map (realign cols (columns df)) (rows df)) dfs)\<rparr>)"

text \<open>
  The list comprehension of \<open>merge_outputs\<close>: the files are read in turn, and the first
  exception ends it.
\<close>

fun read_all :: "store \<Rightarrow> string list \<Rightarrow> exn + ocell table list" where
  "read_all st [] = Inr []"
| "read_all st (f # fs) =
     (case read_csv_output st f of
        Inl e \<Rightarrow> Inl e
      | Inr df \<Rightarrow>
          (case read_all st fs of
             Inl e \<Rightarrow> Inl e
           | Inr dfs \<Rightarrow> Inr (df # dfs)))"

definition merge_outputs :: "env \<Rightarrow> store \<Rightarrow> exn option \<times> store \<times> line list" where
  "merge_outputs env st =
     (let csv_files = glob_csv OUTPUT_DIR (output_dir st)
      in if csv_files = [] then (None, st, [NoClassifiedFilesFound])
         else (case read_all st csv_files of
                 Inl e \<Rightarrow> (Some e, st, [])
               | Inr df_list \<Rightarrow>
                   (case to_csv env st FINAL_OUTPUT (pd_concat df_list) of
                      (Some e, st') \<Rightarrow> (Some e, st', [])
                    | (None, st') \<Rightarrow> (None, st', [FinalMergedFileSavedTo FINAL_OUTPUT]))))"

text \<open>
  The worker pool: every remaining file is given to \<open>process_file\<close> in a process of its
  own. The workers share the output directory only, where each writes under the name
  of its own unit, and the model answers each unit through its own function of
  \<open>subprocess_run\<close>; the pool is modelled by the files taken in the order of the list.
  The result has the status lines, the store, and the prompts sent for each file.
\<close>

fun dispatch ::
  "env \<Rightarrow> store \<Rightarrow> string list \<Rightarrow> string list \<times> store \<times> (string \<times> string list) list" where
  "dispatch env st [] = ([], st, [])"
| "dispatch env st (f # fs) =
     (case process_file env st f of
        (status, st1, calls) \<Rightarrow>
          (case dispatch env st1 fs of
             (statuses, st2, log) \<Rightarrow> (status # statuses, st2, (f, calls) # log)))"

text \<open>
  \<open>main\<close> ends with \<open>sys.exit(1)\<close>, with an exception that \<open>merge_outputs\<close> raises, or
  normally. \<open>submitted\<close> are the files handed to the pool.
\<close>

datatype ending = Exit nat | Raised exn | Returned

record run =
  ending :: ending
  after :: store
  printed :: "line list"
  submitted :: "string list"
  prompts :: "(string \<times> string list) list"

definition main :: "env \<Rightarrow> store \<Rightarrow> run" where
  "main env st =
     (case input_dir st of
        None \<Rightarrow> \<lparr>ending = Exit 1, after = st, printed = [InputDirectoryNotFound],
                 submitted = [], prompts = []\<rparr>
      | Some entries \<Rightarrow>
          (let input_files = glob_csv INPUT_DIR entries
           in if input_files = []
              then \<lparr>ending = Exit 1, after = st, printed = [NoCsvFilesFound],
                    submitted = [], prompts = []\<rparr>
              else
                (let processed_files = set (map basename (glob_csv OUTPUT_DIR (output_dir st)));
                     remaining = filter (\<lambda>f. basename f \<notin> processed_files) input_files;
                     head = [TotalFiles (length input_files),
                             AlreadyProcessed (card processed_files),
                             Remaining (length remaining),
                             UsingWorkers MAX_WORKERS]
                 in case dispatch env st remaining of
                      (statuses, st1, log) \<Rightarrow>
                        (case merge_outputs env st1 of
                           (Some e, st2, out) \<Rightarrow>
                             \<lparr>ending = Raised e, after = st2,
                              printed = head @ map Status statuses @ out,
                              submitted = remaining, prompts = log\<rparr>
                         | (None, st2, out) \<Rightarrow>
                             \<lparr>ending = Returned, after = st2,
                              printed = head @ map Status statuses @ out @ [TotalTime],
                              submitted = remaining, prompts = log\<rparr>))))"

section \<open>An example run\<close>

text \<open>
  Three input units. \<open>a.csv\<close> has two rows and a text column whose name is padded with
  blanks; \<open>b.csv\<close> has no text column; the text cell of \<open>c.csv\<close> is empty. The model
  answers \<open>a.csv\<close> with prose at first and then with a fenced object, \<open>c.csv\<close> with an
  object whose category is none of the seven, and everything else with prose.
  \<open>example_loads\<close> is \<open>json.loads\<close> at the texts that occur in this run: two objects,
  and texts that are no JSON documents.
\<close>

definition example_object :: string where
  \<open>example_object = ''{"category": "Author Upon Request Only", "reason": "on request"}''\<close>

definition other_object :: string where
  \<open>other_object = ''{"category": "Other", "reason": "r"}''\<close>

definition fenced_answer :: string where
  \<open>fenced_answer =
     ''Sure, here is the JSON:\<newline>```json\<newline>'' @ example_object @ ''\<newline>```\<newline>Hope this helps.\<newline>''\<close>

definition braced_answer :: string where
  \<open>braced_answer = ''Answer {final}: '' @ example_object\<close>

definition example_loads :: decoder where
  "example_loads s =
     (if s = example_object
      then Inr (JObj [(''category'', JStr ''Author Upon Request Only''), (''reason'', JStr ''on request'')])
      else if s = other_object
      then Inr (JObj [(''category'', JStr ''Other''), (''reason'', JStr ''r'')])
      else Inl (Exn ''JSONDecodeError'' ''Expecting property name enclosed in double quotes''))"

definition unit_a :: string where
  "unit_a = path_join INPUT_DIR ''a.csv''"

definition unit_b :: string where
  "unit_b = path_join INPUT_DIR ''b.csv''"

definition unit_c :: string where
  "unit_c = path_join INPUT_DIR ''c.csv''"

definition table_a :: "cell table" where
  "table_a =
     \<lparr>columns = [''id'', '' data ''],
      rows = [[Num ''1'', Str ''Data are available from the authors on request.''],
              [Num ''2'', Str ''All data are in the supplement.'']]\<rparr>"

definition table_b :: "cell table" where
  "table_b = \<lparr>columns = [''id'', ''statement''], rows = [[Num ''7'', Str ''No data were generated.'']]\<rparr>"

definition table_c :: "cell table" where
  "table_c = \<lparr>columns = [''data''], rows = [[NaN]]\<rparr>"

definition example_store :: store where
  "example_store =
     \<lparr>input_dir = Some [(''a.csv'', Table table_a), (''b.csv'', Table table_b), (''c.csv'', Table table_c)],
      output_dir = [],
      final_output = None\<rparr>"

definition example_run :: "string \<Rightarrow> subprocess" where
  "example_run path k prompt =
     (if path = unit_a \<and> k = 1 then Inr fenced_answer
      else if path = unit_c then Inr (other_object @ ''\<newline>'')
      else Inr ''I cannot answer that.\<newline>'')"

definition example_env :: env where
  "example_env =
     \<lparr>subprocess_run = example_run,
      json_loads = example_loads,
      series_str = (\<lambda>cs. []),
      column_values = (\<lambda>v n. Inl (Exn ''ValueError'' ''Length of values does not match length of index'')),
      write_outcome = (\<lambda>path. Completes)\<rparr>"

text \<open>The same, on a disk that is full once the header line of a file is written.\<close>

definition full_disk_env :: env where
  "full_disk_env =
     example_env\<lparr>write_outcome := (\<lambda>path. Breaks 1 (Exn ''OSError'' ''[Errno 28] No space left on device''))\<rparr>"

section \<open>The paths and the texts of the example\<close>

lemma INPUT_DIR_eq: "INPUT_DIR = ''data_availability_project/data_availability_all_1_1a''"
  by (simp add: INPUT_DIR_def BASE_DIR_def path_join_def)

lemma OUTPUT_DIR_eq: "OUTPUT_DIR = ''data_availability_project/classified_natcomm_2023_by_gemma''"
  by (simp add: OUTPUT_DIR_def BASE_DIR_def path_join_def)

lemma FINAL_OUTPUT_eq:
  "FINAL_OUTPUT = ''data_availability_project/classified_natcomm_2023_by_gemma_all.csv''"
  by (simp add: FINAL_OUTPUT_def BASE_DIR_def path_join_def)

lemma unit_a_eq: "unit_a = ''data_availability_project/data_availability_all_1_1a/a.csv''"
  by (simp add: unit_a_def INPUT_DIR_eq path_join_def)

lemma unit_b_eq: "unit_b = ''data_availability_project/data_availability_all_1_1a/b.csv''"
  by (simp add: unit_b_def INPUT_DIR_eq path_join_def)

lemma unit_c_eq: "unit_c = ''data_availability_project/data_availability_all_1_1a/c.csv''"
  by (simp add: unit_c_def INPUT_DIR_eq path_join_def)

lemma strip_plain: "py_strip ''I cannot answer that.\<newline>'' = ''I cannot answer that.''"
  by code_simp

lemma extract_plain: "extract_json ''I cannot answer that.'' = None"
  by code_simp

lemma extract_fenced: "extract_json (py_strip fenced_answer) = Some example_object"
  by code_simp

lemma parse_example:
  "parse_fields example_loads (Some example_object) =
     Some (JStr ''Author Upon Request Only'', JStr ''on request'')"
  by code_simp

lemma plain_attempt_fails:
  "path \<noteq> unit_a \<or> k \<noteq> 1 \<Longrightarrow> path \<noteq> unit_c \<Longrightarrow>
   call_llama (example_run path) k prompt = Inr ''I cannot answer that.'' \<and>
   parse_fields example_loads (extract_json ''I cannot answer that.'') = None"
  by (auto simp add: call_llama_def example_run_def strip_plain extract_plain parse_fields_def)

section \<open>The retry loop\<close>

lemma classify_loop_calls_le:
  "length (snd (classify_loop run loads p n k out)) \<le> n"
proof (induction n arbitrary: k out)
  case 0
  show ?case by (simp split: option.splits)
next
  case (Suc n)
  show ?case
  proof (cases "call_llama run k p")
    case (Inl e)
    then show ?thesis by simp
  next
    case (Inr a)
    show ?thesis
    proof (cases "parse_fields loads (extract_json a)")
      case None
      obtain res calls where rc: "classify_loop run loads p n (Suc k) (Some a) = (res, calls)"
        by (cases "classify_loop run loads p n (Suc k) (Some a)")
      from Suc.IH [of "Suc k" "Some a"] rc have "length calls \<le> n" by simp
      with Inr None rc show ?thesis by simp
    next
      case (Some cr)
      with Inr show ?thesis by (cases cr) simp
    qed
  qed
qed

lemma classify_loop_success:
  "j < n \<Longrightarrow> (\<forall>i<j. \<exists>out. call_llama run (k + i) p = Inr out \<and> parse_fields loads (extract_json out) = None)
   \<Longrightarrow> call_llama run (k + j) p = Inr out \<Longrightarrow> parse_fields loads (extract_json out) = Some (c, r)
   \<Longrightarrow> classify_loop run loads p n k prev = (Inr (c, r), replicate (Suc j) p)"
proof (induction n arbitrary: k j prev)
  case 0
  then show ?case by simp
next
  case (Suc n)
  show ?case
  proof (cases j)
    case 0
    with Suc.prems show ?thesis by simp
  next
    case (Suc j')
    from Suc.prems(2) Suc obtain o0 where o0: "call_llama run k p = Inr o0" "parse_fields loads (extract_json o0) = None"
      by fastforce
    have "classify_loop run loads p n (Suc k) (Some o0) = (Inr (c, r), replicate (Suc j') p)"
    proof (rule Suc.IH)
      show "j' < n" using Suc.prems(1) Suc by simp
      show "\<forall>i<j'. \<exists>out. call_llama run (Suc k + i) p = Inr out \<and> parse_fields loads (extract_json out) = None"
      proof (intro allI impI)
        fix i assume "i < j'"
        then have "Suc i < j" using Suc by simp
        with Suc.prems(2) show "\<exists>out. call_llama run (Suc k + i) p = Inr out \<and> parse_fields loads (extract_json out) = None"
          by fastforce
      qed
      show "call_llama run (Suc k + j') p = Inr out" using Suc.prems(3) Suc by simp
      show "parse_fields loads (extract_json out) = Some (c, r)" by (rule Suc.prems(4))
    qed
    with o0 Suc show ?thesis by simp
  qed
qed

lemma classify_loop_exhausted:
  "(\<forall>i<n. \<exists>out. call_llama run (k + i) p = Inr out \<and> parse_fields loads (extract_json out) = None)
   \<Longrightarrow> (if n = 0 then prev = Some final else call_llama run (k + n - 1) p = Inr final)
   \<Longrightarrow> classify_loop run loads p n k prev = (Inr (JStr ''ERROR'', JStr final), replicate n p)"
proof (induction n arbitrary: k prev)
  case 0
  then show ?case by simp
next
  case (Suc n)
  from Suc.prems(1) obtain o0 where o0: "call_llama run k p = Inr o0" "parse_fields loads (extract_json o0) = None"
    by fastforce
  have "classify_loop run loads p n (Suc k) (Some o0) = (Inr (JStr ''ERROR'', JStr final), replicate n p)"
  proof (rule Suc.IH)
    show "\<forall>i<n. \<exists>out. call_llama run (Suc k + i) p = Inr out \<and> parse_fields loads (extract_json out) = None"
    proof (intro allI impI)
      fix i assume "i < n"
      then have "Suc i < Suc n" by simp
      with Suc.prems(1) show "\<exists>out. call_llama run (Suc k + i) p = Inr out \<and> parse_fields loads (extract_json out) = None"
        by fastforce
    qed
    show "if n = 0 then Some o0 = Some final else call_llama run (Suc k + n - 1) p = Inr final"
      using Suc.prems(2) o0 by (cases n) auto
  qed
  with o0 show ?case by simp
qed


text \<open>
  Claim C3. \<open>classify_text\<close> invokes the model at most \<open>MAX_RETRY\<close> = 3 times for a text;
  and when the invocations before the one numbered \<open>k\<close> (counted from 0, \<open>k\<close> below
  \<open>MAX_RETRY\<close>) have failed and that one gives an answer from which the two fields are
  extracted and parsed, \<open>classify_text\<close> returns these fields after exactly \<open>k + 1\<close>
  invocations.
\<close>

theorem classify_text_retry_bound:
  "length (snd (classify_text run loads stmt)) \<le> MAX_RETRY \<and>
   (k < MAX_RETRY \<and>
    (\<forall>i<k. \<exists>failed. call_llama run i (build_prompt stmt) = Inr failed \<and>
                      parse_fields loads (extract_json failed) = None) \<and>
    call_llama run k (build_prompt stmt) = Inr out \<and>
    parse_fields loads (extract_json out) = Some (category, reason)
    \<longrightarrow> classify_text run loads stmt =
          (Inr (category, reason), replicate (Suc k) (build_prompt stmt)))"
proof (intro conjI impI)
  show "length (snd (classify_text run loads stmt)) \<le> MAX_RETRY"
    unfolding classify_text_def by (rule classify_loop_calls_le)
next
  assume h: "k < MAX_RETRY \<and>
    (\<forall>i<k. \<exists>failed. call_llama run i (build_prompt stmt) = Inr failed \<and>
                      parse_fields loads (extract_json failed) = None) \<and>
    call_llama run k (build_prompt stmt) = Inr out \<and>
    parse_fields loads (extract_json out) = Some (category, reason)"
  show "classify_text run loads stmt =
          (Inr (category, reason), replicate (Suc k) (build_prompt stmt))"
    unfolding classify_text_def
    by (rule classify_loop_success [where k = 0 and j = k and out = out]) (use h in simp_all)
qed

theorem classify_text_retry_bound_witness:
  "(1::nat) < MAX_RETRY \<and>
   call_llama (example_run unit_a) 0 (build_prompt ''x'') = Inr ''I cannot answer that.'' \<and>
   parse_fields example_loads (extract_json ''I cannot answer that.'') = None \<and>
   call_llama (example_run unit_a) 1 (build_prompt ''x'') = Inr (py_strip fenced_answer) \<and>
   parse_fields example_loads (extract_json (py_strip fenced_answer)) =
     Some (JStr ''Author Upon Request Only'', JStr ''on request'') \<and>
   length (snd (classify_text (example_run unit_a) example_loads ''x'')) \<le> MAX_RETRY \<and>
   classify_text (example_run unit_a) example_loads ''x'' =
     (Inr (JStr ''Author Upon Request Only'', JStr ''on request''),
      replicate (Suc 1) (build_prompt ''x''))"
proof -
  have a: "(1::nat) < MAX_RETRY" by (simp add: MAX_RETRY_def)
  have b0: "call_llama (example_run unit_a) 0 (build_prompt ''x'') = Inr ''I cannot answer that.'' \<and>
      parse_fields example_loads (extract_json ''I cannot answer that.'') = None"
    using plain_attempt_fails [of unit_a 0] by (simp add: unit_a_eq unit_c_eq)
  then have b: "\<forall>i<1. \<exists>failed. call_llama (example_run unit_a) i (build_prompt ''x'') = Inr failed \<and>
                      parse_fields example_loads (extract_json failed) = None"
    by simp
  have c: "call_llama (example_run unit_a) 1 (build_prompt ''x'') = Inr (py_strip fenced_answer)"
    by (simp add: call_llama_def example_run_def)
  have d: "parse_fields example_loads (extract_json (py_strip fenced_answer)) =
     Some (JStr ''Author Upon Request Only'', JStr ''on request'')"
    by (simp add: extract_fenced parse_example)
  from a b c d classify_text_retry_bound [where run = "example_run unit_a" and loads = example_loads
      and stmt = "''x''" and k = 1 and out = "py_strip fenced_answer"
      and category = "JStr ''Author Upon Request Only''" and reason = "JStr ''on request''"]
  have "length (snd (classify_text (example_run unit_a) example_loads ''x'')) \<le> MAX_RETRY \<and>
   classify_text (example_run unit_a) example_loads ''x'' =
     (Inr (JStr ''Author Upon Request Only'', JStr ''on request''),
      replicate (Suc 1) (build_prompt ''x''))"
    by blast
  with a b0 c d show ?thesis by blast
qed

text \<open>
  Claim C6. When all \<open>MAX_RETRY\<close> attempts on a text fail, that is, every invocation
  returns a text from which the two fields cannot be extracted and parsed,
  \<open>classify_text\<close> returns the category \<open>"ERROR"\<close> and, as the reason, the text that the
  last invocation returned.
\<close>

theorem classify_text_exhausted:
  "(\<forall>i<MAX_RETRY. \<exists>failed. call_llama run i (build_prompt stmt) = Inr failed \<and>
                            parse_fields loads (extract_json failed) = None) \<Longrightarrow>
   call_llama run (MAX_RETRY - 1) (build_prompt stmt) = Inr final \<Longrightarrow>
   classify_text run loads stmt =
     (Inr (JStr ''ERROR'', JStr final), replicate MAX_RETRY (build_prompt stmt))"
  unfolding classify_text_def
  by (rule classify_loop_exhausted) (simp_all add: MAX_RETRY_def)

theorem classify_text_exhausted_witness:
  "call_llama (example_run unit_b) 0 (build_prompt ''x'') = Inr ''I cannot answer that.'' \<and>
   call_llama (example_run unit_b) 1 (build_prompt ''x'') = Inr ''I cannot answer that.'' \<and>
   call_llama (example_run unit_b) 2 (build_prompt ''x'') = Inr ''I cannot answer that.'' \<and>
   parse_fields example_loads (extract_json ''I cannot answer that.'') = None \<and>
   classify_text (example_run unit_b) example_loads ''x'' =
     (Inr (JStr ''ERROR'', JStr ''I cannot answer that.''), replicate MAX_RETRY (build_prompt ''x''))"
proof -
  have ne: "unit_b \<noteq> unit_a" "unit_b \<noteq> unit_c"
    by (simp_all add: unit_a_eq unit_b_eq unit_c_eq)
  have each: "call_llama (example_run unit_b) i (build_prompt ''x'') = Inr ''I cannot answer that.'' \<and>
      parse_fields example_loads (extract_json ''I cannot answer that.'') = None" for i
    using plain_attempt_fails [of unit_b i] ne by blast
  then have a: "\<forall>i<MAX_RETRY. \<exists>failed. call_llama (example_run unit_b) i (build_prompt ''x'') = Inr failed \<and>
                            parse_fields example_loads (extract_json failed) = None"
    by blast
  have b: "call_llama (example_run unit_b) (MAX_RETRY - 1) (build_prompt ''x'') =
     Inr ''I cannot answer that.''"
    using each by blast
  from a b classify_text_exhausted [where run = "example_run unit_b" and loads = example_loads
      and stmt = "''x''" and final = "''I cannot answer that.''"]
  have "classify_text (example_run unit_b) example_loads ''x'' =
     (Inr (JStr ''ERROR'', JStr ''I cannot answer that.''), replicate MAX_RETRY (build_prompt ''x''))"
    by blast
  with each [of 0] each [of 1] each [of 2] show ?thesis by blast
qed

end
